theory Spec2Isabelle
  imports Main
begin

section \<open>Prompt builder of aipyapp (\<^verbatim>\<open>aipyapp/aipy/prompt.py\<close>)\<close>

text \<open>
  The module holds four string templates and five builder functions. One builder renders
  the system prompt with \<^verbatim>\<open>str.format\<close>; the other four fill an \<^verbatim>\<open>OrderedDict\<close>.

  Python strings are sequences of Unicode code points, and \<^verbatim>\<open>str.strip\<close> and
  \<^verbatim>\<open>str.format\<close> work on code points, so a string is a list of code points here.
\<close>

subsection \<open>Strings\<close>

type_synonym pystr = "nat list"

text \<open>An ASCII literal of the source, as code points.\<close>

definition ascii :: "string \<Rightarrow> pystr" where
  "ascii s = map of_char s"

text \<open>
  \<^verbatim>\<open>str.isspace\<close> on one code point, which is what \<^verbatim>\<open>str.strip()\<close> without an
  argument tests: TAB..CR, FS..US, space, NEL, NBSP, and the Unicode space separators.
\<close>

definition py_isspace :: "nat \<Rightarrow> bool" where
  "py_isspace c \<longleftrightarrow>
     (9 \<le> c \<and> c \<le> 13) \<or> (28 \<le> c \<and> c \<le> 32) \<or> c = 133 \<or> c = 160 \<or> c = 5760 \<or>
     (8192 \<le> c \<and> c \<le> 8202) \<or> c = 8232 \<or> c = 8233 \<or> c = 8239 \<or> c = 8287 \<or> c = 12288"

definition lstrip :: "pystr \<Rightarrow> pystr" where
  "lstrip s = dropWhile py_isspace s"

definition rstrip :: "pystr \<Rightarrow> pystr" where
  "rstrip s = rev (dropWhile py_isspace (rev s))"

text \<open>\<^verbatim>\<open>s.strip()\<close>: leading and trailing whitespace removed.\<close>

definition strip :: "pystr \<Rightarrow> pystr" where
  "strip s = rstrip (lstrip s)"

subsection \<open>\<^verbatim>\<open>str.format\<close> with keyword arguments\<close>

text \<open>
  The module calls \<^verbatim>\<open>template.format(name=value, ...)\<close> with string values only.
  The template is scanned left to right: \<^verbatim>\<open>{{\<close> and \<^verbatim>\<open>}}\<close> are literal braces, a
  single \<^verbatim>\<open>}\<close> or an unclosed \<^verbatim>\<open>{\<close> raises ValueError, \<^verbatim>\<open>{name}\<close> is replaced
  by the value of \<^verbatim>\<open>name\<close>, which is inserted as it is and never scanned again. An
  empty or numeric field name asks for a positional argument, of which there are none
  (IndexError); a name that is no keyword raises KeyError.

  Replacement fields with a conversion (\<^verbatim>\<open>!r\<close>), a format spec (\<^verbatim>\<open>:>10\<close>), attribute
  or index access, nested braces, non-ASCII names or an index of more than nine digits
  (which may overflow the index type) are outside the fragment modelled here and give
  \<open>NotModelled\<close>, so that a result \<open>Inr s\<close> of the model is always the string Python
  returns. None of the module's templates has such a field.
\<close>

datatype py_error = ValueError | KeyError | IndexError | NotModelled

definition is_digit :: "nat \<Rightarrow> bool" where
  "is_digit c \<longleftrightarrow> 48 \<le> c \<and> c \<le> 57"

definition get_field :: "pystr \<Rightarrow> (pystr \<times> pystr) list \<Rightarrow> py_error + pystr" where
  "get_field name kwargs =
     (if list_all is_digit name then
        (if length name \<le> 9 then Inl IndexError else Inl NotModelled)
      else case map_of kwargs name of None \<Rightarrow> Inl KeyError | Some v \<Rightarrow> Inr v)"

definition emit :: "pystr \<Rightarrow> py_error + pystr \<Rightarrow> py_error + pystr" where
  "emit s r = (case r of Inl e \<Rightarrow> Inl e | Inr t \<Rightarrow> Inr (s @ t))"

fun str_format :: "pystr \<Rightarrow> (pystr \<times> pystr) list \<Rightarrow> py_error + pystr"
  and format_field :: "pystr \<Rightarrow> pystr \<Rightarrow> (pystr \<times> pystr) list \<Rightarrow> py_error + pystr"
where
  "str_format [] kwargs = Inr []"
| "str_format [c] kwargs = (if c = 123 \<or> c = 125 then Inl ValueError else Inr [c])"
| "str_format (c # d # cs) kwargs =
     (if c = 123 then
        (if d = 123 then emit [123] (str_format cs kwargs)
         else format_field [] (d # cs) kwargs)
      else if c = 125 then
        (if d = 125 then emit [125] (str_format cs kwargs) else Inl ValueError)
      else emit [c] (str_format (d # cs) kwargs))"
| "format_field name [] kwargs = Inl ValueError"
| "format_field name (c # cs) kwargs =
     (if c = 125 then
        (case get_field name kwargs of
           Inl e \<Rightarrow> Inl e
         | Inr v \<Rightarrow> emit v (str_format cs kwargs))
      else if c = 123 \<or> c = 33 \<or> c = 58 \<or> c = 46 \<or> c = 91 \<or> 128 \<le> c then Inl NotModelled
      else format_field (name @ [c]) cs kwargs)"

subsection \<open>The templates\<close>

text \<open>
  \<^verbatim>\<open>SYSTEM_PROMPT_TEMPLATE\<close> (lines 10 to 15): four placeholders, each on a line of
  its own, after an empty first line.
\<close>

definition SYSTEM_PROMPT_TEMPLATE :: pystr where
  "SYSTEM_PROMPT_TEMPLATE =
     [10] @ ascii ''{role_prompt}'' @ [10] @ ascii ''{aipy_prompt}'' @ [10] @
     ascii ''{tips_prompt}'' @ [10] @ ascii ''{api_prompt}'' @ [10]"

text \<open>
  \<^verbatim>\<open>AIPY_PROMPT\<close> (lines 17 to 201), the output-format rules, is mostly Chinese text and
  is given by its code points, cut at the Markdown headings. It is only ever a value
  substituted into the system template.
\<close>

definition AIPY_PROMPT_01 :: pystr where
  "AIPY_PROMPT_01 =
     [10, 35, 32, 36755, 20986, 20869, 23481, 26684, 24335, 35268, 33539, 10, 36755, 20986,
      20869, 23481, 24517, 39035, 37319, 29992, 32467, 26500, 21270, 30340, 32, 77, 97, 114,
      107, 100, 111, 119, 110, 32, 26684, 24335, 65292, 24182, 31526, 21512, 20197, 19979,
      35268, 21017, 65306, 10, 10]"

definition AIPY_PROMPT_02 :: pystr where
  "AIPY_PROMPT_02 =
     [35, 35, 32, 22810, 34892, 20195, 30721, 22359, 26631, 35760, 10, 49, 46, 32, 20195, 30721,
      22359, 24517, 39035, 29992, 19968, 23545, 72, 84, 77, 76, 27880, 37322, 26631, 35760,
      21253, 22260, 65292, 26684, 24335, 22914, 19979, 65306, 10, 32, 32, 32, 45, 32, 20195,
      30721, 24320, 22987, 65306, 60, 33, 45, 45, 32, 66, 108, 111, 99, 107, 45, 83, 116, 97,
      114, 116, 58, 32, 123, 34, 110, 97, 109, 101, 34, 58, 32, 34, 20195, 30721, 22359, 21517,
      31216, 34, 44, 32, 34, 118, 101, 114, 115, 105, 111, 110, 34, 58, 32, 25968, 23383, 29256,
      26412, 21495, 22914, 49, 47, 50, 47, 51, 44, 32, 34, 112, 97, 116, 104, 34, 58, 32, 34,
      35813, 20195, 30721, 22359, 30340, 21487, 36873, 25991, 20214, 36335, 24452, 34, 125, 32,
      45, 45, 62, 10, 32, 32, 32, 45, 32, 20195, 30721, 26412, 20307, 65306, 29992, 32, 77, 97,
      114, 107, 100, 111, 119, 110, 32, 20195, 30721, 22359, 21253, 35065, 65288, 22914, 32, 96,
      96, 96, 112, 121, 116, 104, 111, 110, 32, 25110, 32, 96, 96, 96, 104, 116, 109, 108, 32,
      31561, 41, 12290, 10, 32, 32, 32, 45, 32, 20195, 30721, 32467, 26463, 65306, 60, 33, 45,
      45, 32, 66, 108, 111, 99, 107, 45, 69, 110, 100, 58, 32, 123, 32, 34, 110, 97, 109, 101,
      34, 58, 32, 21644, 66, 108, 111, 99, 107, 45, 83, 116, 97, 114, 116, 20013, 30340, 110,
      97, 109, 101, 19968, 33268, 32, 125, 32, 45, 45, 62, 10, 10, 50, 46, 32, 22810, 20010,
      20195, 30721, 22359, 21487, 20197, 20351, 29992, 21516, 19968, 20010, 110, 97, 109, 101,
      65292, 20294, 29256, 26412, 24517, 39035, 19981, 21516, 12290, 29256, 26412, 26368, 39640,
      30340, 20195, 30721, 22359, 20250, 34987, 35748, 20026, 26159, 26368, 26032, 30340, 26377,
      25928, 29256, 26412, 12290, 10, 10, 51, 46, 32, 96, 112, 97, 116, 104, 96, 32, 20026,
      20195, 30721, 22359, 38656, 35201, 20445, 23384, 20026, 30340, 26412, 22320, 25991, 20214,
      36335, 24452, 21487, 20197, 21253, 21547, 30446, 24405, 44, 32, 22914, 26524, 26159,
      30456, 23545, 36335, 24452, 21017, 40664, 35748, 20026, 30456, 23545, 24403, 21069, 30446,
      24405, 25110, 32773, 29992, 25143, 25351, 23450, 30446, 24405, 46, 10, 10, 52, 46, 32,
      21516, 19968, 20010, 36755, 20986, 28040, 24687, 37324, 21487, 20197, 23450, 20041, 22810,
      20010, 20195, 30721, 22359, 12290, 10, 10, 53, 46, 32, 42, 42, 27491, 30830, 31034, 20363,
      65306, 42, 42, 10, 60, 33, 45, 45, 32, 66, 108, 111, 99, 107, 45, 83, 116, 97, 114, 116,
      58, 32, 123, 34, 110, 97, 109, 101, 34, 58, 32, 34, 97, 98, 99, 49, 50, 51, 34, 44, 32,
      34, 118, 101, 114, 115, 105, 111, 110, 34, 58, 32, 49, 44, 32, 34, 112, 97, 116, 104, 34,
      58, 32, 34, 109, 97, 105, 110, 46, 112, 121, 34, 125, 32, 45, 45, 62, 10, 96, 96, 96, 112,
      121, 116, 104, 111, 110, 10, 112, 114, 105, 110, 116, 40, 34, 104, 101, 108, 108, 111, 32,
      119, 111, 114, 108, 100, 34, 41, 10, 96, 96, 96, 10, 60, 33, 45, 45, 32, 66, 108, 111, 99,
      107, 45, 69, 110, 100, 58, 32, 123, 34, 110, 97, 109, 101, 34, 58, 32, 34, 97, 98, 99, 49,
      50, 51, 34, 125, 32, 45, 45, 62, 10, 10]"

definition AIPY_PROMPT_03 :: pystr where
  "AIPY_PROMPT_03 =
     [35, 35, 32, 21333, 34892, 21629, 20196, 26631, 35760, 10, 49, 46, 32, 27599, 27425, 36755,
      20986, 20013, 21482, 33021, 21253, 21547, 32, 42, 42, 19968, 20010, 42, 42, 32, 96, 67,
      109, 100, 45, 69, 120, 101, 99, 96, 32, 26631, 35760, 65292, 29992, 20110, 25191, 34892,
      21487, 25191, 34892, 20195, 30721, 22359, 26469, 23436, 25104, 29992, 25143, 30340, 20219,
      21153, 65306, 10, 32, 32, 32, 45, 32, 26684, 24335, 65306, 60, 33, 45, 45, 32, 67, 109,
      100, 45, 69, 120, 101, 99, 58, 32, 123, 34, 110, 97, 109, 101, 34, 58, 32, 34, 35201,
      25191, 34892, 30340, 20195, 30721, 22359, 32, 110, 97, 109, 101, 34, 125, 32, 45, 45, 62,
      10, 32, 32, 32, 45, 32, 22914, 26524, 19981, 38656, 35201, 25191, 34892, 20219, 20309,
      20195, 30721, 65292, 21017, 19981, 35201, 28155, 21152, 32, 96, 67, 109, 100, 45, 69, 120,
      101, 99, 96, 12290, 10, 32, 32, 32, 45, 32, 35201, 25191, 34892, 30340, 20195, 30721,
      22359, 24517, 38656, 20808, 20351, 29992, 21069, 36848, 22810, 34892, 20195, 30721, 22359,
      26631, 35760, 26684, 24335, 21333, 29420, 23450, 20041, 12290, 10, 32, 32, 32, 45, 32,
      22914, 26524, 20195, 30721, 22359, 26377, 22810, 20010, 29256, 26412, 65292, 25191, 34892,
      20195, 30721, 22359, 30340, 26368, 26032, 29256, 26412, 12290, 10, 32, 32, 32, 45, 32,
      21487, 20197, 20351, 29992, 32, 96, 67, 109, 100, 45, 69, 120, 101, 99, 96, 32, 25191,
      34892, 20250, 35805, 21382, 21490, 20013, 30340, 25152, 26377, 20195, 30721, 22359, 12290,
      29305, 21035, 22320, 65292, 22914, 26524, 38656, 35201, 37325, 22797, 25191, 34892, 26576,
      20010, 20219, 21153, 65292, 23613, 37327, 20351, 29992, 32, 96, 67, 109, 100, 45, 69, 120,
      101, 99, 96, 32, 25191, 34892, 32780, 19981, 26159, 37325, 22797, 36755, 20986, 20195,
      30721, 22359, 12290, 10, 10, 50, 46, 32, 67, 109, 100, 45, 69, 120, 101, 99, 32, 21482,
      33021, 29992, 26469, 25191, 34892, 32, 80, 121, 116, 104, 111, 110, 32, 20195, 30721,
      22359, 65292, 19981, 33021, 25191, 34892, 20854, 23427, 35821, 35328, 40, 22914, 32, 74,
      83, 79, 78, 47, 67, 83, 83, 47, 74, 97, 118, 97, 83, 99, 114, 105, 112, 116, 31561, 41,
      30340, 20195, 30721, 22359, 12290, 10, 10, 51, 46, 32, 42, 42, 27491, 30830, 31034, 20363,
      65306, 42, 42, 10, 60, 33, 45, 45, 32, 67, 109, 100, 45, 69, 120, 101, 99, 58, 32, 123,
      34, 110, 97, 109, 101, 34, 58, 32, 34, 97, 98, 99, 49, 50, 51, 34, 125, 32, 45, 45, 62,
      10, 10]"

definition AIPY_PROMPT_04 :: pystr where
  "AIPY_PROMPT_04 =
     [35, 35, 32, 20854, 23427, 32, 32, 32, 10, 49, 46, 32, 25152, 26377, 32, 74, 83, 79, 78,
      32, 20869, 23481, 24517, 39035, 20889, 25104, 42, 42, 21333, 34892, 32039, 20945, 26684,
      24335, 42, 42, 65292, 20363, 22914, 65306, 10, 32, 32, 32, 60, 33, 45, 45, 32, 66, 108,
      111, 99, 107, 45, 83, 116, 97, 114, 116, 58, 32, 123, 34, 110, 97, 109, 101, 34, 58, 32,
      34, 97, 98, 99, 49, 50, 51, 34, 44, 32, 34, 112, 97, 116, 104, 34, 58, 32, 34, 109, 97,
      105, 110, 46, 112, 121, 34, 44, 32, 34, 118, 101, 114, 115, 105, 111, 110, 34, 58, 32, 49,
      125, 32, 45, 45, 62, 10, 10, 50, 46, 32, 31105, 27490, 36755, 20986, 20195, 30721, 20869,
      23481, 37325, 22797, 30340, 20195, 30721, 22359, 65292, 36890, 36807, 20195, 30721, 22359,
      110, 97, 109, 101, 26469, 24341, 29992, 20043, 21069, 23450, 20041, 36807, 30340, 20195,
      30721, 22359, 12290, 10, 10, 36981, 24490, 19978, 36848, 35268, 21017, 65292, 29983,
      25104, 36755, 20986, 20869, 23481, 12290, 10, 10]"

definition AIPY_PROMPT_05 :: pystr where
  "AIPY_PROMPT_05 =
     [35, 32, 29983, 25104, 80, 121, 116, 104, 111, 110, 20195, 30721, 35268, 21017, 10, 45, 32,
      30830, 20445, 20195, 30721, 22312, 19979, 36848, 96, 80, 121, 116, 104, 111, 110, 36816,
      34892, 29615, 22659, 25551, 36848, 96, 20013, 25551, 36848, 30340, 36816, 34892, 29615,
      22659, 20013, 21487, 20197, 26080, 38656, 20462, 25913, 30452, 25509, 25191, 34892, 10,
      45, 32, 23454, 29616, 36866, 24403, 30340, 38169, 35823, 22788, 29702, 65292, 21253,
      25324, 20294, 19981, 38480, 20110, 65306, 10, 32, 32, 42, 32, 25991, 20214, 25805, 20316,
      30340, 24322, 24120, 22788, 29702, 10, 32, 32, 42, 32, 32593, 32476, 35831, 27714, 30340,
      36229, 26102, 21644, 36830, 25509, 38169, 35823, 22788, 29702, 10, 32, 32, 42, 32, 25968,
      25454, 22788, 29702, 36807, 31243, 20013, 30340, 31867, 22411, 38169, 35823, 21644, 20540,
      38169, 35823, 22788, 29702, 10, 45, 32, 22914, 26524, 38656, 35201, 21306, 20998, 27491,
      24120, 21644, 38169, 35823, 20449, 24687, 65292, 21487, 20197, 25226, 38169, 35823, 20449,
      24687, 36755, 20986, 21040, 32, 115, 116, 100, 101, 114, 114, 12290, 10, 45, 32, 19981,
      20801, 35768, 25191, 34892, 21487, 33021, 23548, 33268, 32, 80, 121, 116, 104, 111, 110,
      32, 35299, 37322, 22120, 36864, 20986, 30340, 25351, 20196, 65292, 22914, 32, 101, 120,
      105, 116, 47, 113, 117, 105, 116, 32, 31561, 20989, 25968, 65292, 35831, 30830, 20445,
      20195, 30721, 20013, 19981, 21253, 21547, 36825, 31867, 25805, 20316, 12290, 10, 10]"

definition AIPY_PROMPT_06 :: pystr where
  "AIPY_PROMPT_06 =
     [35, 32, 80, 121, 116, 104, 111, 110, 36816, 34892, 29615, 22659, 25551, 36848, 10, 22312,
      26631, 20934, 32, 80, 121, 116, 104, 111, 110, 32, 36816, 34892, 29615, 22659, 30340,
      22522, 30784, 19978, 39069, 22806, 22686, 21152, 20102, 19979, 36848, 21151, 33021, 65306,
      10, 45, 32, 19968, 20123, 39044, 35013, 30340, 31532, 19977, 26041, 21253, 10, 45, 32,
      20840, 23616, 32, 96, 114, 117, 110, 116, 105, 109, 101, 96, 32, 23545, 35937, 10, 45, 32,
      96, 115, 101, 116, 95, 115, 116, 97, 116, 101, 96, 32, 20989, 25968, 65306, 35774, 32622,
      24403, 21069, 20195, 30721, 22359, 30340, 25191, 34892, 32467, 26524, 29366, 24577, 65292,
      25110, 20445, 23384, 25968, 25454, 21040, 20250, 35805, 20013, 12290, 10, 45, 32, 96, 103,
      101, 116, 95, 112, 101, 114, 115, 105, 115, 116, 101, 110, 116, 95, 115, 116, 97, 116,
      101, 96, 32, 20989, 25968, 65306, 33719, 21462, 20250, 35805, 20013, 25345, 20037, 21270,
      30340, 29366, 24577, 20540, 12290, 10, 10, 29983, 25104, 32, 80, 121, 116, 104, 111, 110,
      32, 20195, 30721, 26102, 21487, 20197, 30452, 25509, 20351, 29992, 36825, 20123, 39069,
      22806, 21151, 33021, 12290, 10, 10]"

definition AIPY_PROMPT_07 :: pystr where
  "AIPY_PROMPT_07 =
     [35, 35, 32, 96, 115, 101, 116, 95, 114, 101, 115, 117, 108, 116, 96, 32, 20989, 25968, 10,
      45, 32, 23450, 20041, 58, 32, 96, 115, 101, 116, 95, 114, 101, 115, 117, 108, 116, 40, 42,
      42, 107, 119, 97, 114, 103, 115, 41, 96, 10, 45, 32, 21442, 25968, 58, 32, 10, 32, 32, 45,
      32, 42, 42, 107, 119, 97, 114, 103, 115, 58, 32, 29366, 24577, 38190, 20540, 23545, 65292,
      31867, 22411, 21487, 20197, 20026, 20219, 24847, 80, 121, 116, 104, 111, 110, 22522,
      26412, 25968, 25454, 31867, 22411, 65292, 22914, 23383, 31526, 20018, 47, 25968, 23383,
      47, 21015, 34920, 47, 23383, 20856, 31561, 12290, 10, 45, 32, 29992, 36884, 58, 32, 35774,
      32622, 24403, 21069, 20195, 30721, 22359, 30340, 36816, 34892, 32467, 26524, 20540, 65292,
      20316, 20026, 24403, 21069, 20195, 30721, 22359, 30340, 25191, 34892, 32467, 26524, 21453,
      39304, 12290, 10, 45, 32, 20351, 29992, 31034, 20363, 65306, 10, 96, 96, 96, 112, 121,
      116, 104, 111, 110, 10, 115, 101, 116, 95, 114, 101, 115, 117, 108, 116, 40, 115, 117, 99,
      99, 101, 115, 115, 61, 70, 97, 108, 115, 101, 44, 32, 114, 101, 97, 115, 111, 110, 61, 34,
      69, 114, 114, 111, 114, 58, 32, 21457, 29983, 20102, 38169, 35823, 34, 41, 32, 35, 32,
      35774, 32622, 24403, 21069, 20195, 30721, 22359, 30340, 25191, 34892, 32467, 26524, 29366,
      24577, 10, 115, 101, 116, 95, 114, 101, 115, 117, 108, 116, 40, 115, 117, 99, 99, 101,
      115, 115, 61, 84, 114, 117, 101, 44, 32, 100, 97, 116, 97, 61, 123, 34, 110, 97, 109, 101,
      34, 58, 32, 34, 74, 111, 104, 110, 34, 44, 32, 34, 97, 103, 101, 34, 58, 32, 51, 48, 125,
      41, 32, 35, 32, 35774, 32622, 24403, 21069, 20195, 30721, 22359, 30340, 25191, 34892,
      32467, 26524, 29366, 24577, 10, 96, 96, 96, 10, 10]"

definition AIPY_PROMPT_08 :: pystr where
  "AIPY_PROMPT_08 =
     [35, 35, 32, 96, 115, 101, 116, 95, 112, 101, 114, 115, 105, 115, 116, 101, 110, 116, 95,
      115, 116, 97, 116, 101, 96, 32, 20989, 25968, 10, 45, 32, 23450, 20041, 58, 32, 96, 115,
      101, 116, 95, 112, 101, 114, 115, 105, 115, 116, 101, 110, 116, 95, 115, 116, 97, 116,
      101, 40, 42, 42, 107, 119, 97, 114, 103, 115, 41, 96, 10, 45, 32, 21442, 25968, 58, 32,
      10, 32, 32, 45, 32, 42, 42, 107, 119, 97, 114, 103, 115, 58, 32, 29366, 24577, 38190,
      20540, 23545, 65292, 31867, 22411, 21487, 20197, 20026, 20219, 24847, 80, 121, 116, 104,
      111, 110, 22522, 26412, 25968, 25454, 31867, 22411, 65292, 22914, 23383, 31526, 20018, 47,
      25968, 23383, 47, 21015, 34920, 47, 23383, 20856, 31561, 12290, 10, 45, 32, 29992, 36884,
      58, 32, 35774, 32622, 20250, 35805, 20013, 25345, 20037, 21270, 30340, 29366, 24577,
      20540, 12290, 10, 45, 32, 20351, 29992, 31034, 20363, 65306, 10, 96, 96, 96, 112, 121,
      116, 104, 111, 110, 10, 115, 101, 116, 95, 112, 101, 114, 115, 105, 115, 116, 101, 110,
      116, 95, 115, 116, 97, 116, 101, 40, 100, 97, 116, 97, 61, 123, 34, 110, 97, 109, 101, 34,
      58, 32, 34, 74, 111, 104, 110, 34, 44, 32, 34, 97, 103, 101, 34, 58, 32, 51, 48, 125, 41,
      32, 35, 32, 20445, 23384, 25968, 25454, 21040, 20250, 35805, 20013, 10, 96, 96, 96, 10,
      10]"

definition AIPY_PROMPT_09 :: pystr where
  "AIPY_PROMPT_09 =
     [35, 35, 32, 96, 103, 101, 116, 95, 112, 101, 114, 115, 105, 115, 116, 101, 110, 116, 95,
      115, 116, 97, 116, 101, 96, 32, 20989, 25968, 10, 45, 32, 31867, 22411, 58, 32, 20989,
      25968, 12290, 10, 45, 32, 21442, 25968, 58, 32, 10, 32, 32, 45, 32, 107, 101, 121, 58, 32,
      29366, 24577, 38190, 21517, 10, 45, 32, 29992, 36884, 58, 32, 33719, 21462, 20250, 35805,
      20013, 25345, 20037, 21270, 30340, 29366, 24577, 20540, 12290, 19981, 23384, 22312, 26102,
      36820, 22238, 32, 78, 111, 110, 101, 12290, 10, 45, 32, 20351, 29992, 31034, 20363, 65306,
      10, 96, 96, 96, 112, 121, 116, 104, 111, 110, 10, 100, 97, 116, 97, 32, 61, 32, 103, 101,
      116, 95, 112, 101, 114, 115, 105, 115, 116, 101, 110, 116, 95, 115, 116, 97, 116, 101, 40,
      34, 100, 97, 116, 97, 34, 41, 10, 96, 96, 96, 10, 10]"

definition AIPY_PROMPT_10 :: pystr where
  "AIPY_PROMPT_10 =
     [35, 35, 32, 39044, 35013, 30340, 31532, 19977, 26041, 21253, 10, 19979, 36848, 31532,
      19977, 26041, 21253, 21487, 20197, 26080, 38656, 23433, 35013, 30452, 25509, 20351, 29992,
      65306, 10, 45, 32, 96, 114, 101, 113, 117, 101, 115, 116, 115, 96, 12289, 96, 110, 117,
      109, 112, 121, 96, 12289, 96, 112, 97, 110, 100, 97, 115, 96, 12289, 96, 109, 97, 116,
      112, 108, 111, 116, 108, 105, 98, 96, 12289, 96, 115, 101, 97, 98, 111, 114, 110, 96,
      12289, 96, 98, 115, 52, 96, 12290, 10, 10, 20854, 23427, 31532, 19977, 26041, 21253,
      65292, 37117, 24517, 38656, 36890, 36807, 19979, 36848, 32, 114, 117, 110, 116, 105, 109,
      101, 32, 23545, 35937, 30340, 32, 105, 110, 115, 116, 97, 108, 108, 95, 112, 97, 99, 107,
      97, 103, 101, 115, 32, 26041, 27861, 30003, 35831, 23433, 35013, 25165, 33021, 20351,
      29992, 12290, 10, 10, 22312, 20351, 29992, 32, 109, 97, 116, 112, 108, 111, 116, 108, 105,
      98, 32, 26102, 65292, 38656, 35201, 26681, 25454, 31995, 32479, 31867, 22411, 36873,
      25321, 21644, 35774, 32622, 21512, 36866, 30340, 20013, 25991, 23383, 20307, 65292, 21542,
      21017, 22270, 29255, 37324, 20013, 25991, 20250, 20081, 30721, 23548, 33268, 26080, 27861,
      23436, 25104, 23458, 25143, 20219, 21153, 12290, 10, 31034, 20363, 20195, 30721, 22914,
      19979, 65306, 10, 96, 96, 96, 112, 121, 116, 104, 111, 110, 10, 105, 109, 112, 111, 114,
      116, 32, 112, 108, 97, 116, 102, 111, 114, 109, 10, 10, 115, 121, 115, 116, 101, 109, 32,
      61, 32, 112, 108, 97, 116, 102, 111, 114, 109, 46, 115, 121, 115, 116, 101, 109, 40, 41,
      46, 108, 111, 119, 101, 114, 40, 41, 10, 102, 111, 110, 116, 95, 111, 112, 116, 105, 111,
      110, 115, 32, 61, 32, 123, 10, 32, 32, 32, 32, 39, 119, 105, 110, 100, 111, 119, 115, 39,
      58, 32, 91, 39, 77, 105, 99, 114, 111, 115, 111, 102, 116, 32, 89, 97, 72, 101, 105, 39,
      44, 32, 39, 83, 105, 109, 72, 101, 105, 39, 93, 44, 10, 32, 32, 32, 32, 39, 100, 97, 114,
      119, 105, 110, 39, 58, 32, 91, 39, 75, 97, 105, 39, 44, 32, 39, 72, 101, 105, 39, 93, 44,
      10, 32, 32, 32, 32, 39, 108, 105, 110, 117, 120, 39, 58, 32, 91, 39, 78, 111, 116, 111,
      32, 83, 97, 110, 115, 32, 67, 74, 75, 32, 83, 67, 39, 44, 32, 39, 87, 101, 110, 81, 117,
      97, 110, 89, 105, 32, 77, 105, 99, 114, 111, 32, 72, 101, 105, 39, 44, 32, 39, 83, 111,
      117, 114, 99, 101, 32, 72, 97, 110, 32, 83, 97, 110, 115, 32, 83, 67, 39, 93, 10, 125, 10,
      96, 96, 96, 10, 10]"

definition AIPY_PROMPT_11 :: pystr where
  "AIPY_PROMPT_11 =
     [35, 35, 32, 20840, 23616, 32, 114, 117, 110, 116, 105, 109, 101, 32, 23545, 35937, 10,
      114, 117, 110, 116, 105, 109, 101, 32, 23545, 35937, 25552, 20379, 19968, 20123, 21327,
      21161, 20195, 30721, 23436, 25104, 20219, 21153, 30340, 26041, 27861, 12290, 10, 10]"

definition AIPY_PROMPT_12 :: pystr where
  "AIPY_PROMPT_12 =
     [35, 35, 35, 32, 96, 114, 117, 110, 116, 105, 109, 101, 46, 103, 101, 116, 95, 98, 108,
      111, 99, 107, 95, 98, 121, 95, 110, 97, 109, 101, 96, 32, 26041, 27861, 10, 45, 32, 21151,
      33021, 58, 32, 33719, 21462, 25351, 23450, 32, 110, 97, 109, 101, 32, 30340, 26368, 26032,
      29256, 26412, 30340, 20195, 30721, 22359, 23545, 35937, 10, 45, 32, 23450, 20041, 58, 32,
      96, 103, 101, 116, 95, 98, 108, 111, 99, 107, 95, 98, 121, 95, 110, 97, 109, 101, 40, 99,
      111, 100, 101, 95, 98, 108, 111, 99, 107, 95, 110, 97, 109, 101, 41, 96, 10, 45, 32,
      21442, 25968, 58, 32, 96, 99, 111, 100, 101, 95, 98, 108, 111, 99, 107, 95, 110, 97, 109,
      101, 96, 32, 20026, 20195, 30721, 22359, 30340, 21517, 31216, 10, 45, 32, 36820, 22238,
      20540, 58, 32, 20195, 30721, 22359, 23545, 35937, 65292, 22914, 26524, 19981, 23384,
      22312, 21017, 36820, 22238, 32, 78, 111, 110, 101, 12290, 10, 10, 36820, 22238, 30340,
      20195, 30721, 22359, 23545, 35937, 21253, 21547, 20197, 19979, 23646, 24615, 65306, 10,
      45, 32, 96, 110, 97, 109, 101, 96, 58, 32, 20195, 30721, 22359, 21517, 31216, 10, 45, 32,
      96, 118, 101, 114, 115, 105, 111, 110, 96, 58, 32, 20195, 30721, 22359, 30340, 29256,
      26412, 21495, 10, 45, 32, 96, 108, 97, 110, 103, 96, 58, 32, 20195, 30721, 22359, 30340,
      32534, 31243, 35821, 35328, 10, 45, 32, 96, 99, 111, 100, 101, 96, 58, 32, 20195, 30721,
      22359, 30340, 20195, 30721, 20869, 23481, 10, 45, 32, 96, 112, 97, 116, 104, 96, 58, 32,
      20195, 30721, 22359, 30340, 25991, 20214, 36335, 24452, 65288, 22914, 26524, 20043, 21069,
      26410, 25351, 23450, 21017, 20026, 78, 111, 110, 101, 65289, 10, 10, 21487, 20197, 20462,
      25913, 20195, 30721, 22359, 30340, 32, 96, 99, 111, 100, 101, 96, 32, 23646, 24615, 26469,
      26356, 26032, 20195, 30721, 20869, 23481, 12290, 10, 10]"

definition AIPY_PROMPT_13 :: pystr where
  "AIPY_PROMPT_13 =
     [35, 35, 35, 32, 114, 117, 110, 116, 105, 109, 101, 46, 105, 110, 115, 116, 97, 108, 108,
      95, 112, 97, 99, 107, 97, 103, 101, 115, 32, 26041, 27861, 10, 45, 32, 21151, 33021, 58,
      32, 30003, 35831, 23433, 35013, 23436, 25104, 20219, 21153, 24517, 38656, 30340, 39069,
      22806, 27169, 22359, 10, 45, 32, 21442, 25968, 58, 32, 19968, 20010, 25110, 22810, 20010,
      32, 80, 121, 80, 105, 32, 21253, 21517, 65292, 22914, 65306, 39, 104, 116, 116, 112, 120,
      39, 44, 32, 39, 114, 101, 113, 117, 101, 115, 116, 115, 62, 61, 50, 46, 50, 53, 39, 10,
      45, 32, 36820, 22238, 20540, 58, 84, 114, 117, 101, 32, 34920, 31034, 25104, 21151, 44,
      32, 70, 97, 108, 115, 101, 32, 34920, 31034, 22833, 36133, 10, 10, 31034, 20363, 22914,
      19979, 65306, 10, 96, 96, 96, 112, 121, 116, 104, 111, 110, 10, 105, 102, 32, 114, 117,
      110, 116, 105, 109, 101, 46, 105, 110, 115, 116, 97, 108, 108, 95, 112, 97, 99, 107, 97,
      103, 101, 115, 40, 39, 104, 116, 116, 112, 120, 39, 44, 32, 39, 114, 101, 113, 117, 101,
      115, 116, 115, 62, 61, 50, 46, 50, 53, 39, 41, 58, 10, 32, 32, 32, 32, 105, 109, 112, 111,
      114, 116, 32, 104, 116, 116, 112, 120, 10, 96, 96, 96, 10, 10]"

definition AIPY_PROMPT_14 :: pystr where
  "AIPY_PROMPT_14 =
     [35, 35, 35, 32, 114, 117, 110, 116, 105, 109, 101, 46, 103, 101, 116, 95, 101, 110, 118,
      32, 26041, 27861, 10, 45, 32, 21151, 33021, 58, 32, 33719, 21462, 20195, 30721, 36816,
      34892, 38656, 35201, 30340, 29615, 22659, 21464, 37327, 65292, 22914, 32, 65, 80, 73, 45,
      75, 69, 89, 32, 31561, 12290, 10, 45, 32, 23450, 20041, 58, 32, 103, 101, 116, 95, 101,
      110, 118, 40, 110, 97, 109, 101, 44, 32, 100, 101, 102, 97, 117, 108, 116, 61, 78, 111,
      110, 101, 44, 32, 42, 44, 32, 100, 101, 115, 99, 61, 78, 111, 110, 101, 41, 10, 45, 32,
      21442, 25968, 58, 32, 31532, 19968, 20010, 21442, 25968, 20026, 38656, 35201, 33719,
      21462, 30340, 29615, 22659, 21464, 37327, 21517, 31216, 65292, 31532, 20108, 20010, 21442,
      25968, 20026, 19981, 23384, 22312, 26102, 30340, 40664, 35748, 36820, 22238, 20540, 65292,
      31532, 19977, 20010, 21487, 36873, 23383, 31526, 20018, 21442, 25968, 31616, 35201, 25551,
      36848, 38656, 35201, 30340, 26159, 20160, 20040, 12290, 10, 45, 32, 36820, 22238, 20540,
      58, 32, 29615, 22659, 21464, 37327, 20540, 65292, 36820, 22238, 32, 78, 111, 110, 101, 32,
      25110, 31354, 23383, 31526, 20018, 34920, 31034, 26410, 25214, 21040, 12290, 10, 10,
      31034, 20363, 22914, 19979, 65306, 10, 96, 96, 96, 112, 121, 116, 104, 111, 110, 10, 101,
      110, 118, 95, 110, 97, 109, 101, 32, 61, 32, 39, 29615, 22659, 21464, 37327, 21517, 31216,
      39, 10, 101, 110, 118, 95, 118, 97, 108, 117, 101, 32, 61, 32, 114, 117, 110, 116, 105,
      109, 101, 46, 103, 101, 116, 95, 101, 110, 118, 40, 101, 110, 118, 95, 110, 97, 109, 101,
      44, 32, 34, 78, 111, 32, 101, 110, 118, 34, 44, 32, 100, 101, 115, 99, 61, 39, 35775,
      38382, 65, 80, 73, 26381, 21153, 38656, 35201, 39, 41, 10, 105, 102, 32, 110, 111, 116,
      32, 101, 110, 118, 95, 118, 97, 108, 117, 101, 58, 10, 32, 32, 32, 32, 112, 114, 105, 110,
      116, 40, 102, 34, 69, 114, 114, 111, 114, 58, 32, 123, 101, 110, 118, 95, 110, 97, 109,
      101, 125, 32, 105, 115, 32, 110, 111, 116, 32, 115, 101, 116, 34, 44, 32, 102, 105, 108,
      101, 61, 115, 121, 115, 46, 115, 116, 100, 101, 114, 114, 41, 10, 101, 108, 115, 101, 58,
      10, 32, 32, 32, 32, 112, 114, 105, 110, 116, 40, 102, 34, 123, 101, 110, 118, 95, 110, 97,
      109, 101, 125, 32, 105, 115, 32, 97, 118, 97, 105, 108, 97, 98, 108, 101, 34, 41, 10, 96,
      96, 96, 10, 10]"

definition AIPY_PROMPT_15 :: pystr where
  "AIPY_PROMPT_15 =
     [35, 35, 35, 32, 114, 117, 110, 116, 105, 109, 101, 46, 100, 105, 115, 112, 108, 97, 121,
      32, 26041, 27861, 10, 45, 32, 21151, 33021, 58, 32, 26174, 31034, 22270, 29255, 10, 45,
      32, 23450, 20041, 58, 32, 100, 105, 115, 112, 108, 97, 121, 40, 112, 97, 116, 104, 61, 34,
      112, 97, 116, 104, 47, 116, 111, 47, 105, 109, 97, 103, 101, 46, 106, 112, 103, 34, 44,
      32, 117, 114, 108, 61, 34, 104, 116, 116, 112, 115, 58, 47, 47, 119, 119, 119, 46, 101,
      120, 97, 109, 112, 108, 101, 46, 99, 111, 109, 47, 105, 109, 97, 103, 101, 46, 112, 110,
      103, 34, 41, 10, 45, 32, 21442, 25968, 58, 32, 10, 32, 32, 45, 32, 112, 97, 116, 104, 58,
      32, 22270, 29255, 25991, 20214, 36335, 24452, 10, 32, 32, 45, 32, 117, 114, 108, 58, 32,
      22270, 29255, 32, 85, 82, 76, 10, 45, 32, 36820, 22238, 20540, 58, 32, 26080, 10, 10,
      31034, 20363, 65306, 10, 96, 96, 96, 112, 121, 116, 104, 111, 110, 10, 114, 117, 110, 116,
      105, 109, 101, 46, 100, 105, 115, 112, 108, 97, 121, 40, 112, 97, 116, 104, 61, 34, 112,
      97, 116, 104, 47, 116, 111, 47, 105, 109, 97, 103, 101, 46, 112, 110, 103, 34, 41, 10,
      114, 117, 110, 116, 105, 109, 101, 46, 100, 105, 115, 112, 108, 97, 121, 40, 117, 114,
      108, 61, 34, 104, 116, 116, 112, 115, 58, 47, 47, 119, 119, 119, 46, 101, 120, 97, 109,
      112, 108, 101, 46, 99, 111, 109, 47, 105, 109, 97, 103, 101, 46, 112, 110, 103, 34, 41,
      10, 96, 96, 96, 10, 10]"

definition AIPY_PROMPT_16 :: pystr where
  "AIPY_PROMPT_16 =
     [35, 32, 20195, 30721, 25191, 34892, 32467, 26524, 21453, 39304, 10, 80, 121, 116, 104,
      111, 110, 20195, 30721, 22359, 30340, 25191, 34892, 32467, 26524, 20250, 36890, 36807, 74,
      83, 79, 78, 23545, 35937, 21453, 39304, 32473, 20320, 65292, 23545, 35937, 21253, 25324,
      20197, 19979, 23646, 24615, 65306, 10, 45, 32, 96, 115, 116, 100, 111, 117, 116, 96, 58,
      32, 26631, 20934, 36755, 20986, 20869, 23481, 10, 45, 32, 96, 115, 116, 100, 101, 114,
      114, 96, 58, 32, 26631, 20934, 38169, 35823, 36755, 20986, 10, 45, 32, 96, 114, 101, 115,
      117, 108, 116, 96, 58, 32, 21069, 36848, 96, 115, 101, 116, 95, 114, 101, 115, 117, 108,
      116, 96, 32, 20989, 25968, 35774, 32622, 30340, 24403, 21069, 20195, 30721, 22359, 25191,
      34892, 32467, 26524, 10, 45, 32, 96, 101, 114, 114, 115, 116, 114, 96, 58, 32, 24322,
      24120, 20449, 24687, 10, 45, 32, 96, 116, 114, 97, 99, 101, 98, 97, 99, 107, 96, 58, 32,
      24322, 24120, 22534, 26632, 20449, 24687, 10, 45, 32, 96, 98, 108, 111, 99, 107, 95, 110,
      97, 109, 101, 96, 58, 32, 25191, 34892, 30340, 20195, 30721, 22359, 21517, 31216, 10, 10,
      27880, 24847, 65306, 10, 45, 32, 22914, 26524, 26576, 20010, 23646, 24615, 20026, 31354,
      65292, 23427, 19981, 20250, 20986, 29616, 22312, 21453, 39304, 20013, 12290, 10, 10,
      25910, 21040, 21453, 39304, 21518, 65292, 32467, 21512, 20195, 30721, 21644, 21453, 39304,
      25968, 25454, 65292, 20570, 20986, 19979, 19968, 27493, 30340, 20915, 31574, 12290, 10]"

definition AIPY_PROMPT :: pystr where
  "AIPY_PROMPT =
     AIPY_PROMPT_01 @ AIPY_PROMPT_02 @ AIPY_PROMPT_03 @ AIPY_PROMPT_04 @
     AIPY_PROMPT_05 @ AIPY_PROMPT_06 @ AIPY_PROMPT_07 @ AIPY_PROMPT_08 @
     AIPY_PROMPT_09 @ AIPY_PROMPT_10 @ AIPY_PROMPT_11 @ AIPY_PROMPT_12 @
     AIPY_PROMPT_13 @ AIPY_PROMPT_14 @ AIPY_PROMPT_15 @ AIPY_PROMPT_16"

text \<open>
  \<^verbatim>\<open>TIPS_PROMPT\<close> (lines 203 to 206): an empty line, a heading line, then
  \<^verbatim>\<open>{tips}\<close> on a line of its own. \<open>TIPS_PROMPT_text\<close> is the part before the
  placeholder.
\<close>

definition TIPS_PROMPT_text :: pystr where
  "TIPS_PROMPT_text =
     [10, 35, 32, 30693, 35782, 28857, 47, 26368, 20339, 23454, 36341, 10]"

definition TIPS_PROMPT :: pystr where
  "TIPS_PROMPT = TIPS_PROMPT_text @ ascii ''{tips}'' @ [10]"

text \<open>
  \<^verbatim>\<open>API_PROMPT\<close> (lines 208 to 218): a heading, two lines of explanation, two numbered
  notes (environment variables only through \<^verbatim>\<open>runtime.get_env\<close>, never
  \<^verbatim>\<open>os.getenv\<close>), an empty line, then \<^verbatim>\<open>{apis}\<close> on a line of its own.
  \<open>API_PROMPT_text\<close> is the part before the placeholder.
\<close>

definition API_PROMPT_text :: pystr where
  "API_PROMPT_text =
     [10, 35, 32, 19968, 20123, 32, 65, 80, 73, 32, 20449, 24687, 10, 19979, 38754, 26159,
      29992, 25143, 25552, 20379, 30340, 19968, 20123, 32, 65, 80, 73, 32, 20449, 24687, 65292,
      21487, 33021, 26377, 32, 65, 80, 73, 95, 75, 69, 89, 65292, 85, 82, 76, 65292, 29992,
      36884, 21644, 20351, 29992, 26041, 27861, 31561, 20449, 24687, 12290, 10, 36825, 20123,
      21487, 33021, 23545, 29305, 23450, 20219, 21153, 26377, 29992, 36884, 65292, 20320, 21487,
      20197, 26681, 25454, 20219, 21153, 36873, 25321, 24615, 20351, 29992, 12290, 10, 10,
      27880, 24847, 65306, 10, 49, 46, 32, 36825, 20123, 32, 65, 80, 73, 32, 20449, 24687,
      37324, 25551, 36848, 30340, 29615, 22659, 21464, 37327, 24517, 39035, 29992, 32, 114, 117,
      110, 116, 105, 109, 101, 46, 103, 101, 116, 95, 101, 110, 118, 32, 26041, 27861, 33719,
      21462, 65292, 32477, 23545, 19981, 33021, 20351, 29992, 32, 111, 115, 46, 103, 101, 116,
      101, 110, 118, 32, 26041, 27861, 12290, 10, 50, 46, 32, 65, 80, 73, 33719, 21462, 25968,
      25454, 22833, 36133, 26102, 65292, 35831, 36755, 20986, 23436, 25972, 30340, 65, 80, 73,
      21709, 24212, 20449, 24687, 65292, 26041, 20415, 35843, 35797, 21644, 20998, 26512, 38382,
      39064, 12290, 10, 10]"

definition API_PROMPT :: pystr where
  "API_PROMPT = API_PROMPT_text @ ascii ''{apis}'' @ [10]"

subsection \<open>The system prompt\<close>

text \<open>
  What \<^verbatim>\<open>get_system_prompt\<close> reads of its \<^verbatim>\<open>tips\<close> argument, whose class is not
  part of this module: \<^verbatim>\<open>tips.role.detail\<close>, \<^verbatim>\<open>len(tips)\<close> and \<^verbatim>\<open>str(tips)\<close>.
\<close>

record tips =
  role_detail :: pystr
  tips_len :: nat
  tips_str :: pystr

text \<open>Truth value of an optional string: \<^verbatim>\<open>None\<close> and \<^verbatim>\<open>''\<close> are false.\<close>

definition truthy :: "pystr option \<Rightarrow> bool" where
  "truthy u = (case u of None \<Rightarrow> False | Some s \<Rightarrow> s \<noteq> [])"

text \<open>\<^verbatim>\<open>u or d\<close> for an optional string \<open>u\<close>.\<close>

definition py_or :: "pystr option \<Rightarrow> pystr \<Rightarrow> pystr" where
  "py_or u d = (case u of None \<Rightarrow> d | Some s \<Rightarrow> if s \<noteq> [] then s else d)"

text \<open>\<^verbatim>\<open>d[k] = v\<close> on a dict: an existing key keeps its place, a new key goes last.\<close>

fun dict_set :: "('k \<times> 'v) list \<Rightarrow> 'k \<Rightarrow> 'v \<Rightarrow> ('k \<times> 'v) list" where
  "dict_set [] k v = [(k, v)]"
| "dict_set ((k', v') # d) k v = (if k' = k then (k, v) # d else (k', v') # dict_set d k v)"

definition get_system_prompt :: "tips \<Rightarrow> pystr \<Rightarrow> pystr option \<Rightarrow> py_error + pystr" where
  "get_system_prompt tips api_prompt user_prompt0 =
     (let user_prompt = (if truthy user_prompt0 then map_option strip user_prompt0
                         else user_prompt0)
      in case str_format API_PROMPT [(ascii ''apis'', api_prompt)] of
           Inl e \<Rightarrow> Inl e
         | Inr api \<Rightarrow>
             (let prompts = [(ascii ''role_prompt'', py_or user_prompt (role_detail tips)),
                             (ascii ''aipy_prompt'', AIPY_PROMPT),
                             (ascii ''tips_prompt'', []),
                             (ascii ''api_prompt'', api)]
              in if \<not> truthy user_prompt \<and> tips_len tips > 0 then
                   (case str_format TIPS_PROMPT [(ascii ''tips'', tips_str tips)] of
                      Inl e \<Rightarrow> Inl e
                    | Inr t \<Rightarrow>
                        str_format SYSTEM_PROMPT_TEMPLATE
                          (dict_set prompts (ascii ''tips_prompt'') t))
                 else str_format SYSTEM_PROMPT_TEMPLATE prompts))"


subsection \<open>Ordered records\<close>

text \<open>
  The values the four record builders store: strings, \<^verbatim>\<open>None\<close>, the tuple of
  \<^verbatim>\<open>locale.getlocale()\<close>, lists (of execution results) and nested
  \<^verbatim>\<open>OrderedDict\<close>s. An \<^verbatim>\<open>OrderedDict\<close> is an association list in insertion order,
  written to with \<open>dict_set\<close>.
\<close>

datatype pyval =
    PyNone
  | PyStr pystr
  | PyTuple "pyval list"
  | PyList "pyval list"
  | PyDict "(pystr \<times> pyval) list"

type_synonym odict = "(pystr \<times> pyval) list"

text \<open>\<^verbatim>\<open>list(d.keys())\<close>, \<^verbatim>\<open>k in d\<close> and \<^verbatim>\<open>d[k]\<close> (KeyError for a missing key).\<close>

definition dict_keys :: "odict \<Rightarrow> pystr list" where
  "dict_keys d = map fst d"

definition dict_contains :: "odict \<Rightarrow> pystr \<Rightarrow> bool" where
  "dict_contains d k \<longleftrightarrow> k \<in> set (dict_keys d)"

definition dict_get :: "odict \<Rightarrow> pystr \<Rightarrow> py_error + pyval" where
  "dict_get d k = (case map_of d k of None \<Rightarrow> Inl KeyError | Some v \<Rightarrow> Inr v)"

subsection \<open>The process environment\<close>

text \<open>
  \<^verbatim>\<open>get_task_prompt\<close> reads the platform, the locale, the clock and two environment
  variables. They are a parameter of the model: what \<^verbatim>\<open>platform.system()\<close>,
  \<^verbatim>\<open>platform.platform()\<close>, \<^verbatim>\<open>platform.python_version()\<close> and \<^verbatim>\<open>date.today()\<close>
  return, the mapping \<^verbatim>\<open>os.environ\<close>, and the outcome of \<^verbatim>\<open>locale.getlocale()\<close>.

  \<^verbatim>\<open>locale.getlocale()\<close> is the one call that can fail: it returns a pair of language
  code and encoding, either of which may be \<^verbatim>\<open>None\<close>, or raises ValueError when the
  name of the current locale cannot be parsed. The module calls it without a guard, so
  its outcome is a result value here, \<open>Inl\<close> for the error raised.
\<close>

record date =
  year :: nat
  month :: nat
  day :: nat

record environment =
  platform_system :: pystr
  locale_getlocale :: "py_error + pystr option \<times> pystr option"
  platform_platform :: pystr
  platform_python_version :: pystr
  date_today :: date
  os_environ :: "pystr \<rightharpoonup> pystr"

definition digit :: "nat \<Rightarrow> nat" where
  "digit n = 48 + n mod 10"

text \<open>
  \<^verbatim>\<open>date.isoformat()\<close>, that is \<^verbatim>\<open>'%04d-%02d-%02d' % (year, month, day)\<close>. A
  \<^verbatim>\<open>date\<close> has a year from 1 to 9999, a month from 1 to 12 and a day from 1 to 31,
  so the three fields have exactly four, two and two digits.
\<close>

definition isoformat :: "date \<Rightarrow> pystr" where
  "isoformat d =
     [digit (year d div 1000), digit (year d div 100), digit (year d div 10), digit (year d),
      45, digit (month d div 10), digit (month d),
      45, digit (day d div 10), digit (day d)]"

definition opt_str :: "pystr option \<Rightarrow> pyval" where
  "opt_str u = (case u of None \<Rightarrow> PyNone | Some s \<Rightarrow> PyStr s)"

text \<open>\<^verbatim>\<open>os.environ.get(name, default)\<close>.\<close>

definition environ_get :: "environment \<Rightarrow> pystr \<Rightarrow> pystr \<Rightarrow> pystr" where
  "environ_get env name dflt =
     (case os_environ env name of None \<Rightarrow> dflt | Some v \<Rightarrow> v)"

subsection \<open>The record builders\<close>

text \<open>
  \<^verbatim>\<open>get_task_prompt\<close> returns its record, or raises what \<^verbatim>\<open>locale.getlocale()\<close>
  raises (line 239): the statements before the call cannot fail, and none after it can.
\<close>

definition get_task_prompt :: "environment \<Rightarrow> pystr \<Rightarrow> bool \<Rightarrow> py_error + odict" where
  "get_task_prompt env instruction gui =
     (let prompt = [];
          prompt = dict_set prompt (ascii ''task'') (PyStr instruction);
          prompt = dict_set prompt (ascii ''source'') (PyStr (ascii ''User''));
          context = [];
          context = dict_set context (ascii ''os_type'') (PyStr (platform_system env))
      in case locale_getlocale env of
           Inl e \<Rightarrow> Inl e
         | Inr loc \<Rightarrow>
     (let context = dict_set context (ascii ''os_locale'')
                      (PyTuple [opt_str (fst loc), opt_str (snd loc)]);
          context = dict_set context (ascii ''os_platform'') (PyStr (platform_platform env));
          context = dict_set context (ascii ''python_version'')
                      (PyStr (platform_python_version env));
          context = dict_set context (ascii ''today'') (PyStr (isoformat (date_today env)));
          context =
            (if \<not> gui then
               (let context = dict_set context (ascii ''TERM'')
                                (PyStr (environ_get env (ascii ''TERM'') (ascii ''unknown'')))
                in dict_set context (ascii ''LC_TERMINAL'')
                     (PyStr (environ_get env (ascii ''LC_TERMINAL'') (ascii ''unknown''))))
             else context);
          prompt = dict_set prompt (ascii ''context'') (PyDict context);
          constraints = [];
          constraints = dict_set constraints (ascii ''reply_language'')
            (PyStr (ascii ''Now, use the exact language of the `task` field for subsequent responses''));
          constraints = dict_set constraints (ascii ''file_creation_path'')
            (PyStr (ascii ''current_directory''));
          constraints =
            (if gui then
               dict_set constraints (ascii ''matplotlib'')
                 (PyStr (ascii ''DO NOT use plt.show to display picture because I'm using the Agg backend. Save pictures with plt.savefig() and display them with runtime.display().''))
             else constraints);
          prompt = dict_set prompt (ascii ''constraints'') (PyDict constraints)
      in Inr prompt))"

definition get_results_prompt :: "pyval \<Rightarrow> odict" where
  "get_results_prompt results =
     (let prompt = [];
          prompt = dict_set prompt (ascii ''message'')
            (PyStr (ascii ''These are the execution results of the code block/s automatically returned in the order of execution by the runtime environment.''));
          prompt = dict_set prompt (ascii ''source'') (PyStr (ascii ''Runtime Environment''));
          prompt = dict_set prompt (ascii ''results'') results
      in prompt)"

definition get_chat_prompt :: "pystr \<Rightarrow> pystr \<Rightarrow> odict" where
  "get_chat_prompt msg task =
     (let prompt = [];
          prompt = dict_set prompt (ascii ''message'') (PyStr msg);
          prompt = dict_set prompt (ascii ''source'') (PyStr (ascii ''User''));
          context = [];
          context = dict_set context (ascii ''initial_task'') (PyStr task);
          prompt = dict_set prompt (ascii ''context'') (PyDict context);
          constraints = [];
          constraints = dict_set constraints (ascii ''reply_language'')
            (PyStr (ascii ''Now, use the exact language of the `message` field for subsequent responses''));
          prompt = dict_set prompt (ascii ''constraints'') (PyDict constraints)
      in prompt)"

definition get_mcp_result_prompt :: "pyval \<Rightarrow> odict" where
  "get_mcp_result_prompt result =
     (let prompt = [];
          prompt = dict_set prompt (ascii ''message'')
            (PyStr (ascii ''The following is the result of the MCP tool call''));
          prompt = dict_set prompt (ascii ''source'') (PyStr (ascii ''MCP Tool''));
          prompt = dict_set prompt (ascii ''result'') result
      in prompt)"


section \<open>Properties\<close>

subsection \<open>Auxiliary facts\<close>

lemma ascii_eq_iff: "ascii s = ascii t \<longleftrightarrow> s = t"
  by (simp add: ascii_def inj_on_def)

text \<open>The quote inside the matplotlib constraint is the character it is in the source.\<close>

lemma matplotlib_text_quote:
  "length (ascii ''DO NOT use plt.show to display picture because I'm using the Agg backend. Save pictures with plt.savefig() and display them with runtime.display().'') = 147
   \<and> ascii ''DO NOT use plt.show to display picture because I'm using the Agg backend. Save pictures with plt.savefig() and display them with runtime.display().'' ! 48 = 39"
  by (simp add: ascii_def)

lemma isoformat_example: "isoformat \<lparr>year = 2026, month = 11, day = 6\<rparr> = ascii ''2026-11-06''"
  by (simp add: isoformat_def digit_def ascii_def)

text \<open>Rendering the three templates: the text is copied, the placeholder replaced.\<close>

lemma API_PROMPT_format:
  "str_format API_PROMPT [(ascii ''apis'', a)] = Inr (API_PROMPT_text @ a @ [10])"
  by (simp add: API_PROMPT_def API_PROMPT_text_def ascii_def get_field_def emit_def is_digit_def)

lemma TIPS_PROMPT_format:
  "str_format TIPS_PROMPT [(ascii ''tips'', a)] = Inr (TIPS_PROMPT_text @ a @ [10])"
  by (simp add: TIPS_PROMPT_def TIPS_PROMPT_text_def ascii_def get_field_def emit_def is_digit_def)

lemma SYSTEM_PROMPT_TEMPLATE_format:
  "str_format SYSTEM_PROMPT_TEMPLATE
     [(ascii ''role_prompt'', r), (ascii ''aipy_prompt'', a), (ascii ''tips_prompt'', t),
      (ascii ''api_prompt'', p)]
   = Inr ([10] @ r @ [10] @ a @ [10] @ t @ [10] @ p @ [10])"
  by (simp add: SYSTEM_PROMPT_TEMPLATE_def ascii_def get_field_def emit_def is_digit_def)

text \<open>The system prompt in closed form, for every input.\<close>

lemma get_system_prompt_unfold:
  "get_system_prompt tips api up =
     (let u = (if truthy up then map_option strip up else up) in
      Inr ([10] @ py_or u (role_detail tips) @ [10] @ AIPY_PROMPT @ [10] @
           (if \<not> truthy u \<and> tips_len tips > 0 then TIPS_PROMPT_text @ tips_str tips @ [10]
            else []) @
           [10] @ (API_PROMPT_text @ api @ [10]) @ [10]))"
  by (simp add: get_system_prompt_def Let_def API_PROMPT_format TIPS_PROMPT_format
      SYSTEM_PROMPT_TEMPLATE_format ascii_eq_iff)

lemma strip_Nil: "strip [] = []"
  by (simp add: strip_def lstrip_def rstrip_def)

lemma strip_all_space:
  assumes "list_all py_isspace s"
  shows "strip s = []"
proof -
  from assms have "dropWhile py_isspace s = []"
    by (induction s) simp_all
  then show ?thesis
    unfolding strip_def lstrip_def rstrip_def by (simp only: rev.simps dropWhile.simps)
qed

text \<open>
  The four records in closed form. The task prompt is its record whenever the locale
  call returns, and the error of that call otherwise.
\<close>

lemma get_task_prompt_unfold:
  "get_task_prompt env instruction gui =
    (case locale_getlocale env of
       Inl e \<Rightarrow> Inl e
     | Inr loc \<Rightarrow> Inr
     [(ascii ''task'', PyStr instruction),
      (ascii ''source'', PyStr (ascii ''User'')),
      (ascii ''context'', PyDict
         ([(ascii ''os_type'', PyStr (platform_system env)),
           (ascii ''os_locale'', PyTuple [opt_str (fst loc), opt_str (snd loc)]),
           (ascii ''os_platform'', PyStr (platform_platform env)),
           (ascii ''python_version'', PyStr (platform_python_version env)),
           (ascii ''today'', PyStr (isoformat (date_today env)))] @
          (if gui then []
           else [(ascii ''TERM'', PyStr (environ_get env (ascii ''TERM'') (ascii ''unknown''))),
                 (ascii ''LC_TERMINAL'',
                  PyStr (environ_get env (ascii ''LC_TERMINAL'') (ascii ''unknown'')))]))),
      (ascii ''constraints'', PyDict
         ([(ascii ''reply_language'',
            PyStr (ascii ''Now, use the exact language of the `task` field for subsequent responses'')),
           (ascii ''file_creation_path'', PyStr (ascii ''current_directory''))] @
          (if gui then
             [(ascii ''matplotlib'',
               PyStr (ascii ''DO NOT use plt.show to display picture because I'm using the Agg backend. Save pictures with plt.savefig() and display them with runtime.display().''))]
           else [])))])"
  by (simp add: get_task_prompt_def Let_def ascii_eq_iff split: sum.split)

lemma get_results_prompt_unfold:
  "get_results_prompt results =
     [(ascii ''message'',
       PyStr (ascii ''These are the execution results of the code block/s automatically returned in the order of execution by the runtime environment.'')),
      (ascii ''source'', PyStr (ascii ''Runtime Environment'')),
      (ascii ''results'', results)]"
  by (simp add: get_results_prompt_def Let_def ascii_eq_iff)

lemma get_chat_prompt_unfold:
  "get_chat_prompt msg task =
     [(ascii ''message'', PyStr msg),
      (ascii ''source'', PyStr (ascii ''User'')),
      (ascii ''context'', PyDict [(ascii ''initial_task'', PyStr task)]),
      (ascii ''constraints'', PyDict
         [(ascii ''reply_language'',
           PyStr (ascii ''Now, use the exact language of the `message` field for subsequent responses''))])]"
  by (simp add: get_chat_prompt_def Let_def ascii_eq_iff)

lemma get_mcp_result_prompt_unfold:
  "get_mcp_result_prompt result =
     [(ascii ''message'', PyStr (ascii ''The following is the result of the MCP tool call'')),
      (ascii ''source'', PyStr (ascii ''MCP Tool'')),
      (ascii ''result'', result)]"
  by (simp add: get_mcp_result_prompt_def Let_def ascii_eq_iff)


subsection \<open>The system prompt\<close>

text \<open>
  The rendered prompt is an empty line, the role section, the rules of \<open>AIPY_PROMPT\<close>,
  the tips section and the API section, each followed by a line break. The theorems
  below give the whole string, so that each section is fixed by its place in it.
\<close>

text \<open>
  C1, as the code has it: for every user prompt that is not empty after trimming, the role
  section is the trimmed user prompt and the tips section is empty, whatever the tips
  collection holds.
\<close>

theorem system_prompt_user_role:
  assumes "strip user_prompt \<noteq> []"
  shows "get_system_prompt tips api (Some user_prompt) =
           Inr ([10] @ strip user_prompt @ [10] @ AIPY_PROMPT @ [10] @ [] @ [10] @
                (API_PROMPT_text @ api @ [10]) @ [10])"
proof -
  from assms have "user_prompt \<noteq> []"
    using strip_Nil by blast
  with assms show ?thesis
    by (simp add: get_system_prompt_unfold truthy_def py_or_def)
qed

text \<open>The theorem at the prompt \<^verbatim>\<open>' Be terse.  '\<close>, with one tip in the collection.\<close>

theorem system_prompt_user_role_witness:
  "strip (ascii '' Be terse.  '') \<noteq> [] \<and>
   get_system_prompt \<lparr>role_detail = ascii ''R'', tips_len = 1, tips_str = ascii ''T''\<rparr>
     (ascii ''{k}'') (Some (ascii '' Be terse.  '')) =
   Inr ([10] @ ascii ''Be terse.'' @ [10] @ AIPY_PROMPT @ [10] @ [] @ [10] @
        (API_PROMPT_text @ ascii ''{k}'' @ [10]) @ [10])"
proof -
  have s: "strip (ascii '' Be terse.  '') = ascii ''Be terse.''"
    by (simp add: strip_def lstrip_def rstrip_def py_isspace_def ascii_def)
  have n: "strip (ascii '' Be terse.  '') \<noteq> []"
    unfolding s by (simp add: ascii_def)
  from system_prompt_user_role [OF n, where tips = "\<lparr>role_detail = ascii ''R'', tips_len = 1, tips_str = ascii ''T''\<rparr>"
      and api = "ascii ''{k}''"] s n
  show ?thesis
    by simp
qed

text \<open>
  For a non-empty prompt of whitespace only the statement without "after trimming" fails:
  at the prompt \<^verbatim>\<open>' '\<close> and a collection of one tip, the role section is
  \<^verbatim>\<open>tips.role.detail\<close> and the tips section is rendered.
\<close>

theorem system_prompt_user_role_counterexample:
  "[32] \<noteq> ([] :: pystr) \<and>
   get_system_prompt \<lparr>role_detail = ascii ''R'', tips_len = 1, tips_str = ascii ''T''\<rparr>
     [] (Some [32]) =
   Inr ([10] @ ascii ''R'' @ [10] @ AIPY_PROMPT @ [10] @ (TIPS_PROMPT_text @ ascii ''T'' @ [10]) @
        [10] @ (API_PROMPT_text @ [] @ [10]) @ [10]) \<and>
   get_system_prompt \<lparr>role_detail = ascii ''R'', tips_len = 1, tips_str = ascii ''T''\<rparr>
     [] (Some [32]) \<noteq>
   Inr ([10] @ strip [32] @ [10] @ AIPY_PROMPT @ [10] @ [] @ [10] @
        (API_PROMPT_text @ [] @ [10]) @ [10])"
proof -
  have s: "strip [32] = []"
    by (simp add: strip_def lstrip_def rstrip_def py_isspace_def)
  show ?thesis
    by (simp add: get_system_prompt_unfold truthy_def py_or_def s ascii_def)
qed

text \<open>
  C2: with no user prompt, or the empty one, the role section is \<^verbatim>\<open>tips.role.detail\<close>;
  the tips section is empty when the collection has length 0, and otherwise the tips
  template with \<^verbatim>\<open>str(tips)\<close> in the place of its placeholder.
\<close>

theorem system_prompt_default_role:
  "TIPS_PROMPT = TIPS_PROMPT_text @ ascii ''{tips}'' @ [10] \<and>
   get_system_prompt tips api None =
     Inr ([10] @ role_detail tips @ [10] @ AIPY_PROMPT @ [10] @
          (if tips_len tips = 0 then [] else TIPS_PROMPT_text @ tips_str tips @ [10]) @
          [10] @ (API_PROMPT_text @ api @ [10]) @ [10]) \<and>
   get_system_prompt tips api (Some []) =
     Inr ([10] @ role_detail tips @ [10] @ AIPY_PROMPT @ [10] @
          (if tips_len tips = 0 then [] else TIPS_PROMPT_text @ tips_str tips @ [10]) @
          [10] @ (API_PROMPT_text @ api @ [10]) @ [10])"
  by (simp add: get_system_prompt_unfold truthy_def py_or_def TIPS_PROMPT_def)

text \<open>
  C8: for every API description, braces and other template markers included, the API
  section is the API template with the description in the place of its placeholder,
  unchanged, and it closes the prompt whatever the user prompt and the tips are.
\<close>

theorem system_prompt_api_section:
  "API_PROMPT = API_PROMPT_text @ ascii ''{apis}'' @ [10] \<and>
   (\<exists>role tips_section.
      get_system_prompt tips api user_prompt =
        Inr ([10] @ role @ [10] @ AIPY_PROMPT @ [10] @ tips_section @ [10] @
             (API_PROMPT_text @ api @ [10]) @ [10]))"
proof
  show "API_PROMPT = API_PROMPT_text @ ascii ''{apis}'' @ [10]"
    by (rule API_PROMPT_def)
next
  let ?u = "if truthy user_prompt then map_option strip user_prompt else user_prompt"
  let ?role = "py_or ?u (role_detail tips)"
  let ?sec = "if \<not> truthy ?u \<and> tips_len tips > 0
              then TIPS_PROMPT_text @ tips_str tips @ [10] else []"
  have "get_system_prompt tips api user_prompt =
        Inr ([10] @ ?role @ [10] @ AIPY_PROMPT @ [10] @ ?sec @ [10] @
             (API_PROMPT_text @ api @ [10]) @ [10])"
    by (simp only: get_system_prompt_unfold Let_def)
  then show "\<exists>role tips_section.
      get_system_prompt tips api user_prompt =
        Inr ([10] @ role @ [10] @ AIPY_PROMPT @ [10] @ tips_section @ [10] @
             (API_PROMPT_text @ api @ [10]) @ [10])"
    by blast
qed

text \<open>
  C10: a non-empty user prompt of whitespace only is treated as no user prompt: the result
  is the one for \<^verbatim>\<open>None\<close>, the role section is \<^verbatim>\<open>tips.role.detail\<close>, and the tips
  section is rendered whenever the collection is not empty.
\<close>

theorem system_prompt_whitespace_only:
  assumes "user_prompt \<noteq> []" and "list_all py_isspace user_prompt"
  shows "get_system_prompt tips api (Some user_prompt) = get_system_prompt tips api None \<and>
         get_system_prompt tips api (Some user_prompt) =
           Inr ([10] @ role_detail tips @ [10] @ AIPY_PROMPT @ [10] @
                (if tips_len tips > 0 then TIPS_PROMPT_text @ tips_str tips @ [10] else []) @
                [10] @ (API_PROMPT_text @ api @ [10]) @ [10])"
proof -
  from assms(2) have "strip user_prompt = []"
    by (rule strip_all_space)
  with assms(1) show ?thesis
    by (simp add: get_system_prompt_unfold truthy_def py_or_def)
qed

text \<open>The theorem at a prompt of a space, a tab and a line break, with two tips.\<close>

theorem system_prompt_whitespace_only_witness:
  "[32, 9, 10] \<noteq> ([] :: pystr) \<and> list_all py_isspace [32, 9, 10] \<and>
   get_system_prompt \<lparr>role_detail = ascii ''R'', tips_len = 2, tips_str = ascii ''T''\<rparr>
     (ascii ''a'') (Some [32, 9, 10]) =
   Inr ([10] @ ascii ''R'' @ [10] @ AIPY_PROMPT @ [10] @ (TIPS_PROMPT_text @ ascii ''T'' @ [10]) @
        [10] @ (API_PROMPT_text @ ascii ''a'' @ [10]) @ [10])"
proof -
  have n: "[32, 9, 10] \<noteq> ([] :: pystr)"
    by simp
  have w: "list_all py_isspace [32, 9, 10]"
    by (simp add: py_isspace_def)
  from system_prompt_whitespace_only [OF n w, where tips = "\<lparr>role_detail = ascii ''R'', tips_len = 2, tips_str = ascii ''T''\<rparr>"
      and api = "ascii ''a''", THEN conjunct2] n w
  show ?thesis
    by simp
qed

subsection \<open>The task prompt\<close>

text \<open>
  The three theorems on the task prompt hold in every environment in which
  \<^verbatim>\<open>locale.getlocale()\<close> returns: \<open>env\<close> is any environment and \<open>loc\<close> any pair
  the call returns, so \<open>env\<lparr>locale_getlocale := Inr loc\<rparr>\<close> ranges over all of them.
\<close>

text \<open>
  C3: without the GUI the task prompt is returned and its context has exactly the keys
  \<^verbatim>\<open>os_type\<close>, \<^verbatim>\<open>os_locale\<close>, \<^verbatim>\<open>os_platform\<close>, \<^verbatim>\<open>python_version\<close>, \<^verbatim>\<open>today\<close>
  (the date in ISO format), \<^verbatim>\<open>TERM\<close> and \<^verbatim>\<open>LC_TERMINAL\<close>, in this order; the last
  two are the environment variables of these names, or \<^verbatim>\<open>'unknown'\<close> when the variable
  is not set.
\<close>

theorem task_prompt_context_terminal:
  "\<exists>prompt.
     get_task_prompt (env\<lparr>locale_getlocale := Inr loc\<rparr>) instruction False = Inr prompt \<and>
     dict_get prompt (ascii ''context'') =
       Inr (PyDict
         [(ascii ''os_type'', PyStr (platform_system env)),
          (ascii ''os_locale'', PyTuple [opt_str (fst loc), opt_str (snd loc)]),
          (ascii ''os_platform'', PyStr (platform_platform env)),
          (ascii ''python_version'', PyStr (platform_python_version env)),
          (ascii ''today'', PyStr (isoformat (date_today env))),
          (ascii ''TERM'',
           PyStr (case os_environ env (ascii ''TERM'') of
                    None \<Rightarrow> ascii ''unknown'' | Some v \<Rightarrow> v)),
          (ascii ''LC_TERMINAL'',
           PyStr (case os_environ env (ascii ''LC_TERMINAL'') of
                    None \<Rightarrow> ascii ''unknown'' | Some v \<Rightarrow> v))])"
  by (simp add: get_task_prompt_unfold dict_get_def ascii_eq_iff environ_get_def)

text \<open>
  C4: with the GUI the task prompt is returned, its context has neither \<^verbatim>\<open>TERM\<close> nor
  \<^verbatim>\<open>LC_TERMINAL\<close> and its constraints have a \<^verbatim>\<open>matplotlib\<close> key; without the GUI
  it is returned and its constraints have no \<^verbatim>\<open>matplotlib\<close> key.
\<close>

theorem task_prompt_gui:
  "(\<exists>prompt context constraints.
      get_task_prompt (env\<lparr>locale_getlocale := Inr loc\<rparr>) instruction True = Inr prompt \<and>
      dict_get prompt (ascii ''context'') = Inr (PyDict context) \<and>
      dict_keys context = [ascii ''os_type'', ascii ''os_locale'', ascii ''os_platform'',
                           ascii ''python_version'', ascii ''today''] \<and>
      \<not> dict_contains context (ascii ''TERM'') \<and>
      \<not> dict_contains context (ascii ''LC_TERMINAL'') \<and>
      dict_get prompt (ascii ''constraints'') = Inr (PyDict constraints) \<and>
      dict_contains constraints (ascii ''matplotlib'')) \<and>
   (\<exists>prompt constraints.
      get_task_prompt (env\<lparr>locale_getlocale := Inr loc\<rparr>) instruction False = Inr prompt \<and>
      dict_get prompt (ascii ''constraints'') = Inr (PyDict constraints) \<and>
      \<not> dict_contains constraints (ascii ''matplotlib''))"
  by (simp add: get_task_prompt_unfold dict_get_def dict_contains_def dict_keys_def ascii_eq_iff)

text \<open>
  C5: in both modes the task prompt is returned and has the keys \<^verbatim>\<open>task\<close>,
  \<^verbatim>\<open>source\<close>, \<^verbatim>\<open>context\<close>, \<^verbatim>\<open>constraints\<close> in this order; \<^verbatim>\<open>task\<close> is the
  instruction, \<^verbatim>\<open>source\<close> is \<^verbatim>\<open>'User'\<close>, and the constraints hold
  \<^verbatim>\<open>reply_language\<close>, a sentence that names the \<^verbatim>\<open>task\<close> field, and
  \<^verbatim>\<open>file_creation_path\<close>, which is \<^verbatim>\<open>'current_directory'\<close>.
\<close>

theorem task_prompt_shape:
  "\<exists>prompt context constraints.
     get_task_prompt (env\<lparr>locale_getlocale := Inr loc\<rparr>) instruction gui = Inr prompt \<and>
     dict_keys prompt =
       [ascii ''task'', ascii ''source'', ascii ''context'', ascii ''constraints''] \<and>
     dict_get prompt (ascii ''task'') = Inr (PyStr instruction) \<and>
     dict_get prompt (ascii ''source'') = Inr (PyStr (ascii ''User'')) \<and>
     dict_get prompt (ascii ''context'') = Inr (PyDict context) \<and>
     dict_get prompt (ascii ''constraints'') = Inr (PyDict constraints) \<and>
     dict_get constraints (ascii ''reply_language'') =
       Inr (PyStr (ascii ''Now, use the exact language of the `'' @ ascii ''task'' @
                   ascii ''` field for subsequent responses'')) \<and>
     dict_get constraints (ascii ''file_creation_path'') =
       Inr (PyStr (ascii ''current_directory''))"
  by (simp add: get_task_prompt_unfold dict_get_def dict_keys_def ascii_eq_iff)
    (simp add: ascii_def)

subsection \<open>The results prompt and the chat prompt\<close>

text \<open>
  C6: the results prompt has exactly the keys \<^verbatim>\<open>message\<close>, \<^verbatim>\<open>source\<close>,
  \<^verbatim>\<open>results\<close> in this order; \<^verbatim>\<open>source\<close> is \<^verbatim>\<open>'Runtime Environment'\<close> and
  \<^verbatim>\<open>results\<close> is the argument itself, so a list of two results comes back as that
  list of two.
\<close>

theorem results_prompt_shape:
  "dict_keys (get_results_prompt results) = [ascii ''message'', ascii ''source'', ascii ''results''] \<and>
   dict_get (get_results_prompt results) (ascii ''source'') =
     Inr (PyStr (ascii ''Runtime Environment'')) \<and>
   dict_get (get_results_prompt results) (ascii ''results'') = Inr results \<and>
   dict_get (get_results_prompt (PyList [r1, r2])) (ascii ''results'') = Inr (PyList [r1, r2])"
  by (simp add: get_results_prompt_unfold dict_get_def dict_keys_def ascii_eq_iff)

text \<open>
  C7: for all strings \<open>msg\<close> and \<open>task\<close>, whatever characters they hold, the chat
  prompt has the keys \<^verbatim>\<open>message\<close>, \<^verbatim>\<open>source\<close>, \<^verbatim>\<open>context\<close>,
  \<^verbatim>\<open>constraints\<close>; \<^verbatim>\<open>message\<close> is \<open>msg\<close>, \<^verbatim>\<open>source\<close> is \<^verbatim>\<open>'User'\<close>, and the
  context holds \<^verbatim>\<open>initial_task\<close>, which is \<open>task\<close>.
\<close>

theorem chat_prompt_fields:
  "dict_keys (get_chat_prompt msg task) =
     [ascii ''message'', ascii ''source'', ascii ''context'', ascii ''constraints''] \<and>
   dict_get (get_chat_prompt msg task) (ascii ''message'') = Inr (PyStr msg) \<and>
   dict_get (get_chat_prompt msg task) (ascii ''source'') = Inr (PyStr (ascii ''User'')) \<and>
   dict_get (get_chat_prompt msg task) (ascii ''context'') =
     Inr (PyDict [(ascii ''initial_task'', PyStr task)]) \<and>
   (\<exists>context. dict_get (get_chat_prompt msg task) (ascii ''context'') = Inr (PyDict context) \<and>
      dict_get context (ascii ''initial_task'') = Inr (PyStr task))"
  by (simp add: get_chat_prompt_unfold dict_get_def dict_keys_def ascii_eq_iff)

subsection \<open>Totality\<close>

text \<open>
  C9, as the code has it. Four builders return a value on every input: the system prompt
  is rendered without an error from \<^verbatim>\<open>str.format\<close> for every tips collection, API
  description and optional user prompt, with \<^verbatim>\<open>tips.role.detail\<close> as the role when
  there is no user prompt and an empty tips section when there are no tips; the results,
  chat and tool-result builders have no failing step and return the record given here.
  The task prompt is returned whenever \<^verbatim>\<open>locale.getlocale()\<close> returns, with
  \<^verbatim>\<open>'unknown'\<close> for \<^verbatim>\<open>TERM\<close> and \<^verbatim>\<open>LC_TERMINAL\<close> when the process environment
  does not set them; when \<^verbatim>\<open>locale.getlocale()\<close> raises, \<^verbatim>\<open>get_task_prompt\<close> raises
  the same error.
\<close>

theorem builders_return:
  "(\<exists>s. get_system_prompt tips api user_prompt = Inr s) \<and>
   get_system_prompt tips api None =
     Inr ([10] @ role_detail tips @ [10] @ AIPY_PROMPT @ [10] @
          (if tips_len tips = 0 then [] else TIPS_PROMPT_text @ tips_str tips @ [10]) @
          [10] @ (API_PROMPT_text @ api @ [10]) @ [10]) \<and>
   get_system_prompt (tips\<lparr>tips_len := 0\<rparr>) api None =
     Inr ([10] @ role_detail tips @ [10] @ AIPY_PROMPT @ [10] @ [] @ [10] @
          (API_PROMPT_text @ api @ [10]) @ [10]) \<and>
   get_task_prompt env instruction gui =
     (case locale_getlocale env of
        Inl e \<Rightarrow> Inl e
      | Inr loc \<Rightarrow> Inr
          [(ascii ''task'', PyStr instruction),
           (ascii ''source'', PyStr (ascii ''User'')),
           (ascii ''context'', PyDict
              ([(ascii ''os_type'', PyStr (platform_system env)),
                (ascii ''os_locale'', PyTuple [opt_str (fst loc), opt_str (snd loc)]),
                (ascii ''os_platform'', PyStr (platform_platform env)),
                (ascii ''python_version'', PyStr (platform_python_version env)),
                (ascii ''today'', PyStr (isoformat (date_today env)))] @
               (if gui then []
                else [(ascii ''TERM'',
                       PyStr (case os_environ env (ascii ''TERM'') of
                                None \<Rightarrow> ascii ''unknown'' | Some v \<Rightarrow> v)),
                      (ascii ''LC_TERMINAL'',
                       PyStr (case os_environ env (ascii ''LC_TERMINAL'') of
                                None \<Rightarrow> ascii ''unknown'' | Some v \<Rightarrow> v))]))),
           (ascii ''constraints'', PyDict
              ([(ascii ''reply_language'',
                 PyStr (ascii ''Now, use the exact language of the `task` field for subsequent responses'')),
                (ascii ''file_creation_path'', PyStr (ascii ''current_directory''))] @
               (if gui then
                  [(ascii ''matplotlib'',
                    PyStr (ascii ''DO NOT use plt.show to display picture because I'm using the Agg backend. Save pictures with plt.savefig() and display them with runtime.display().''))]
                else [])))]) \<and>
   (\<exists>prompt.
      get_task_prompt (env\<lparr>locale_getlocale := Inr loc, os_environ := map_of []\<rparr>)
        instruction False = Inr prompt \<and>
      dict_get prompt (ascii ''context'') =
        Inr (PyDict
          [(ascii ''os_type'', PyStr (platform_system env)),
           (ascii ''os_locale'', PyTuple [opt_str (fst loc), opt_str (snd loc)]),
           (ascii ''os_platform'', PyStr (platform_platform env)),
           (ascii ''python_version'', PyStr (platform_python_version env)),
           (ascii ''today'', PyStr (isoformat (date_today env))),
           (ascii ''TERM'', PyStr (ascii ''unknown'')),
           (ascii ''LC_TERMINAL'', PyStr (ascii ''unknown''))])) \<and>
   get_task_prompt (env\<lparr>locale_getlocale := Inl e\<rparr>) instruction gui = Inl e \<and>
   get_results_prompt results =
     [(ascii ''message'',
       PyStr (ascii ''These are the execution results of the code block/s automatically returned in the order of execution by the runtime environment.'')),
      (ascii ''source'', PyStr (ascii ''Runtime Environment'')),
      (ascii ''results'', results)] \<and>
   get_chat_prompt msg task =
     [(ascii ''message'', PyStr msg),
      (ascii ''source'', PyStr (ascii ''User'')),
      (ascii ''context'', PyDict [(ascii ''initial_task'', PyStr task)]),
      (ascii ''constraints'', PyDict
         [(ascii ''reply_language'',
           PyStr (ascii ''Now, use the exact language of the `message` field for subsequent responses''))])] \<and>
   get_mcp_result_prompt result =
     [(ascii ''message'', PyStr (ascii ''The following is the result of the MCP tool call'')),
      (ascii ''source'', PyStr (ascii ''MCP Tool'')),
      (ascii ''result'', result)]"
proof -
  have sys: "\<exists>s. get_system_prompt tips api user_prompt = Inr s"
    by (simp add: get_system_prompt_unfold Let_def)
  have none: "get_system_prompt tips api None =
     Inr ([10] @ role_detail tips @ [10] @ AIPY_PROMPT @ [10] @
          (if tips_len tips = 0 then [] else TIPS_PROMPT_text @ tips_str tips @ [10]) @
          [10] @ (API_PROMPT_text @ api @ [10]) @ [10])"
    by (simp add: get_system_prompt_unfold truthy_def py_or_def)
  have empty: "get_system_prompt (tips\<lparr>tips_len := 0\<rparr>) api None =
     Inr ([10] @ role_detail tips @ [10] @ AIPY_PROMPT @ [10] @ [] @ [10] @
          (API_PROMPT_text @ api @ [10]) @ [10])"
    by (simp add: get_system_prompt_unfold truthy_def py_or_def)
  have task: "get_task_prompt env instruction gui =
     (case locale_getlocale env of
        Inl e \<Rightarrow> Inl e
      | Inr loc \<Rightarrow> Inr
          [(ascii ''task'', PyStr instruction),
           (ascii ''source'', PyStr (ascii ''User'')),
           (ascii ''context'', PyDict
              ([(ascii ''os_type'', PyStr (platform_system env)),
                (ascii ''os_locale'', PyTuple [opt_str (fst loc), opt_str (snd loc)]),
                (ascii ''os_platform'', PyStr (platform_platform env)),
                (ascii ''python_version'', PyStr (platform_python_version env)),
                (ascii ''today'', PyStr (isoformat (date_today env)))] @
               (if gui then []
                else [(ascii ''TERM'',
                       PyStr (case os_environ env (ascii ''TERM'') of
                                None \<Rightarrow> ascii ''unknown'' | Some v \<Rightarrow> v)),
                      (ascii ''LC_TERMINAL'',
                       PyStr (case os_environ env (ascii ''LC_TERMINAL'') of
                                None \<Rightarrow> ascii ''unknown'' | Some v \<Rightarrow> v))]))),
           (ascii ''constraints'', PyDict
              ([(ascii ''reply_language'',
                 PyStr (ascii ''Now, use the exact language of the `task` field for subsequent responses'')),
                (ascii ''file_creation_path'', PyStr (ascii ''current_directory''))] @
               (if gui then
                  [(ascii ''matplotlib'',
                    PyStr (ascii ''DO NOT use plt.show to display picture because I'm using the Agg backend. Save pictures with plt.savefig() and display them with runtime.display().''))]
                else [])))])"
    by (simp only: get_task_prompt_unfold environ_get_def)
  have unset: "\<exists>prompt.
      get_task_prompt (env\<lparr>locale_getlocale := Inr loc, os_environ := map_of []\<rparr>)
        instruction False = Inr prompt \<and>
      dict_get prompt (ascii ''context'') =
        Inr (PyDict
          [(ascii ''os_type'', PyStr (platform_system env)),
           (ascii ''os_locale'', PyTuple [opt_str (fst loc), opt_str (snd loc)]),
           (ascii ''os_platform'', PyStr (platform_platform env)),
           (ascii ''python_version'', PyStr (platform_python_version env)),
           (ascii ''today'', PyStr (isoformat (date_today env))),
           (ascii ''TERM'', PyStr (ascii ''unknown'')),
           (ascii ''LC_TERMINAL'', PyStr (ascii ''unknown''))])"
    by (simp add: get_task_prompt_unfold dict_get_def ascii_eq_iff environ_get_def)
  have raise: "get_task_prompt (env\<lparr>locale_getlocale := Inl e\<rparr>) instruction gui = Inl e"
    by (simp add: get_task_prompt_unfold)
  note records = get_results_prompt_unfold [of results] get_chat_prompt_unfold [of msg task]
    get_mcp_result_prompt_unfold [of result]
  from sys none empty task unset "raise" records show ?thesis
    by (intro conjI)
qed

text \<open>
  Without the condition on \<^verbatim>\<open>locale.getlocale()\<close> the statement fails: in a process
  whose locale name cannot be parsed, \<^verbatim>\<open>get_task_prompt('Plot a sine wave')\<close> raises
  ValueError and returns no record.
\<close>

theorem builders_return_counterexample:
  "get_task_prompt
     \<lparr>platform_system = ascii ''Linux'',
      locale_getlocale = Inl ValueError,
      platform_platform = ascii ''Linux-6.1-x86_64'',
      platform_python_version = ascii ''3.11.10'',
      date_today = \<lparr>year = 2026, month = 11, day = 6\<rparr>,
      os_environ = map_of [(ascii ''TERM'', ascii ''xterm'')]\<rparr>
     (ascii ''Plot a sine wave'') False
   = Inl ValueError"
  by (simp add: get_task_prompt_unfold)

end
